theory Spec2Isabelle
  imports Complex_Main
begin

section \<open>The exchange-rates client: data model\<close>

text \<open>
  The class \<open>ExchangeRatesApi\<close> of \<^verbatim>\<open>src/src/exchange-rates-api.ts\<close> is embedded
  method by method. An instance is a record of its six private fields; a method takes the
  instance (\<open>this\<close>). A setter returns the instance after its assignment; the methods
  that build the URL, fetch and average return the instance next to their result, so that
  what they leave of it can be stated. A \<open>throw\<close> (and a rejected promise) is the
  \<open>Inl\<close> of a sum. Strings are byte sequences, numbers are exact rationals, and a
  JavaScript object is the list of its own properties in insertion order. Names are the
  source's, without the leading underscore: \<open>_validate\<close> is \<open>validate\<close>, and the field
  \<open>this._from\<close> is \<open>this_from\<close>.
\<close>

subsection \<open>Dates\<close>

text \<open>
  Modelled from the spec: the date utilities \<open>parseDate\<close> and \<open>formatDate\<close> of
  \<^verbatim>\<open>./utils\<close>, which is not among the sources. The spec gives them as: parse an input
  date value into a normalized calendar date; format a normalized date as \<open>YYYY-MM-DD\<close>;
  compare two dates for ordering. A date is therefore a calendar date, \<open>parseDate\<close>
  of a date is that date, and \<open>formatDate\<close> prints four, two and two decimal digits.
  \<open>getYear\<close> and \<open>isAfter\<close> are the two functions of the library date-fns the class
  imports: the calendar year, and strictly later.
\<close>

record date =
  year :: nat
  month :: nat
  day :: nat

definition parseDate :: "date \<Rightarrow> date" where
  "parseDate d = d"

definition getYear :: "date \<Rightarrow> nat" where
  "getYear d = year d"

definition isAfter :: "date \<Rightarrow> date \<Rightarrow> bool" where
  "isAfter a b =
     (year b < year a \<or>
      (year a = year b \<and> (month b < month a \<or> (month a = month b \<and> day b < day a))))"

definition digit :: "nat \<Rightarrow> char" where
  "digit n = ''0123456789'' ! (n mod 10)"

definition pad2 :: "nat \<Rightarrow> string" where
  "pad2 n = [digit (n div 10), digit n]"

definition pad4 :: "nat \<Rightarrow> string" where
  "pad4 n = [digit (n div 1000), digit (n div 100), digit (n div 10), digit n]"

definition formatDate :: "date \<Rightarrow> string" where
  "formatDate d = pad4 (year d) @ ''-'' @ pad2 (month d) @ ''-'' @ pad2 (day d)"

subsection \<open>The instance and its errors\<close>

text \<open>
  The field \<open>_from\<close> has the type \<open>'latest' | Date\<close>. The record holds the fields as the
  constructor leaves them: the base URL and the access key it was given, \<open>_from\<close> at
  \<open>'latest'\<close>, the others undefined.
\<close>

datatype from_selector = Latest | Date date

record ExchangeRatesApi =
  this_apiBaseUrl :: string
  this_accessKey :: string
  this_base :: "string option"
  this_symbols :: "string list option"
  this_from :: from_selector
  this_to :: "date option"

text \<open>
  One constructor for each place where the source throws. The source tells its
  \<open>ExchangeRatesError\<close>s apart by their message only; the constructors carry the kinds the
  specification names:
  \<^item> \<open>InvalidCurrency c\<close>: \<open>`${currency} is not a valid currency`\<close>;
  \<^item> \<open>InvalidDateRange\<close>: "Cannot set the 'from' date to 'latest' when fetching a date range";
  \<^item> \<open>InvalidDateOrder\<close>: "The 'from' date cannot be after the 'to' date";
  \<^item> \<open>UnsupportedHistoricalYear\<close>: "Cannot get historical rates before 1999";
  \<^item> \<open>DecimalPlacesNotInteger\<close>: "The decimal places parameter has to be an integer";
  \<^item> \<open>DecimalPlacesNegative\<close>: "Decimal places cannot be negative";
  \<^item> \<open>FetchFailed cause\<close>: \<open>`Couldn't fetch the exchange rate, ${error}`\<close>, thrown by the
    \<open>catch\<close> of \<open>fetch\<close>, where the cause is what the message embeds;
  \<^item> \<open>BaseNotString\<close>, \<open>SymbolNotString\<close>: the two \<open>TypeError\<close>s of \<open>base\<close> and \<open>symbols\<close>;
  \<^item> \<open>PushNotFunction\<close>: the \<open>TypeError\<close> of calling \<open>push\<close> on a value that has none;
  \<^item> \<open>ToFixedRange\<close>: the \<open>RangeError\<close> of \<open>Number.prototype.toFixed\<close>.
\<close>

datatype fetch_cause =
    BadResponse nat
  | UpstreamError string
  | ErrorMessage string
  | NoRates

datatype error =
    InvalidCurrency string
  | InvalidDateRange
  | InvalidDateOrder
  | UnsupportedHistoricalYear
  | DecimalPlacesNotInteger
  | DecimalPlacesNegative
  | FetchFailed fetch_cause
  | BaseNotString
  | SymbolNotString
  | PushNotFunction
  | ToFixedRange

text \<open>
  The kind \<open>InvalidArgument\<close> of the specification: a non-string where a currency code is
  required, or a decimal-places argument that is not an integer or is negative.
\<close>

definition InvalidArgument :: "error \<Rightarrow> bool" where
  "InvalidArgument e =
     (e = DecimalPlacesNotInteger \<or> e = DecimalPlacesNegative \<or>
      e = BaseNotString \<or> e = SymbolNotString)"

section \<open>Validation\<close>

subsection \<open>Currency codes\<close>

text \<open>
  \<open>String.prototype.toUpperCase\<close> is the upper-case mapping of Unicode, which is not
  reproduced here: the methods that call it take it as their first argument
  \<open>toUpperCase\<close>. \<open>upper_casing\<close> lists what is used of it: the result has no ASCII
  lower-case letter, upper-casing it again changes nothing, and on a string of ASCII
  characters the 26 letters are mapped and every other character is kept.
  \<open>ascii_toUpperCase\<close> is that ASCII mapping, applied to every byte; it stands for
  \<open>toUpperCase\<close> in the examples, which are ASCII strings.
\<close>

definition lower_letters :: string where
  "lower_letters = ''abcdefghijklmnopqrstuvwxyz''"

definition upper_letters :: string where
  "upper_letters = ''ABCDEFGHIJKLMNOPQRSTUVWXYZ''"

definition ascii_toUpperChar :: "char \<Rightarrow> char" where
  "ascii_toUpperChar c =
     (case map_of (zip lower_letters upper_letters) c of Some u \<Rightarrow> u | None \<Rightarrow> c)"

definition ascii_toUpperCase :: "string \<Rightarrow> string" where
  "ascii_toUpperCase x = map ascii_toUpperChar x"

definition ascii :: "string \<Rightarrow> bool" where
  "ascii x = list_all (\<lambda>c. (of_char c :: nat) < 128) x"

definition upper_casing :: "(string \<Rightarrow> string) \<Rightarrow> bool" where
  "upper_casing toUpperCase =
     ((\<forall>x. \<forall>c \<in> set (toUpperCase x). c \<notin> set lower_letters) \<and>
      (\<forall>x. toUpperCase (toUpperCase x) = toUpperCase x) \<and>
      (\<forall>x. ascii x \<longrightarrow> toUpperCase x = ascii_toUpperCase x))"

text \<open>
  The table \<open>currencies\<close> of \<^verbatim>\<open>./currencies\<close> is not among the sources: the methods
  that read it take the list of its own keys as their first argument. The source tests
  membership with the operator \<open>in\<close>, which also finds the properties an object literal
  inherits from \<open>Object.prototype\<close>.
\<close>

definition object_prototype_keys :: "string list" where
  "object_prototype_keys =
     [''constructor'', ''__defineGetter__'', ''__defineSetter__'', ''hasOwnProperty'',
      ''__lookupGetter__'', ''__lookupSetter__'', ''isPrototypeOf'',
      ''propertyIsEnumerable'', ''toString'', ''valueOf'', ''__proto__'',
      ''toLocaleString'']"

definition js_in :: "string \<Rightarrow> string list \<Rightarrow> bool" where
  "js_in key own_keys = (key \<in> set own_keys \<or> key \<in> set object_prototype_keys)"

definition validateCurrency :: "string list \<Rightarrow> string \<Rightarrow> error + unit" where
  "validateCurrency currencies currency =
     (if \<not> js_in currency currencies then Inl (InvalidCurrency currency) else Inr ())"

subsection \<open>Dates of a request\<close>

definition isHistoryRequest :: "ExchangeRatesApi \<Rightarrow> bool" where
  "isHistoryRequest s = (this_to s \<noteq> None)"

text \<open>
  \<open>_validate\<close>: the two checks of a history request, then the check of the year, each
  \<open>throw\<close> ending the method.
\<close>

definition validate :: "ExchangeRatesApi \<Rightarrow> error + unit" where
  "validate s =
     (case (if isHistoryRequest s then
              (case this_from s of
                 Latest \<Rightarrow> Inl InvalidDateRange
               | Date f \<Rightarrow>
                   (case this_to s of
                      Some t \<Rightarrow> if isAfter f t then Inl InvalidDateOrder else Inr ()
                    | None \<Rightarrow> Inr ()))
            else Inr ()) of
        Inl e \<Rightarrow> Inl e
      | Inr _ \<Rightarrow>
          (case this_from s of
             Date f \<Rightarrow> if getYear f < 1999 then Inl UnsupportedHistoricalYear else Inr ()
           | Latest \<Rightarrow> Inr ()))"

section \<open>The chainable setters\<close>

text \<open>
  \<open>at\<close>, \<open>latest\<close>, \<open>from\<close> and \<open>to\<close> assign one field and return \<open>this\<close>
  (\<open>at\<close>, \<open>from\<close> and \<open>to\<close> carry a suffix: the bare names are taken in Isabelle).
\<close>

definition at_date :: "date \<Rightarrow> ExchangeRatesApi \<Rightarrow> ExchangeRatesApi" where
  "at_date d s = s\<lparr>this_from := Date (parseDate d)\<rparr>"

definition latest :: "ExchangeRatesApi \<Rightarrow> ExchangeRatesApi" where
  "latest s = s\<lparr>this_from := Latest\<rparr>"

definition from_date :: "date \<Rightarrow> ExchangeRatesApi \<Rightarrow> ExchangeRatesApi" where
  "from_date d s = s\<lparr>this_from := Date (parseDate d)\<rparr>"

definition to_date :: "date \<Rightarrow> ExchangeRatesApi \<Rightarrow> ExchangeRatesApi" where
  "to_date d s = s\<lparr>this_to := Some (parseDate d)\<rparr>"

text \<open>
  An argument declared \<open>string\<close> is, at run time, a string or something else; the source
  tests \<open>typeof currency !== 'string'\<close>.
\<close>

datatype js_arg = Str string | NotStr

definition base ::
  "(string \<Rightarrow> string) \<Rightarrow> string list \<Rightarrow> js_arg \<Rightarrow> ExchangeRatesApi \<Rightarrow> error + ExchangeRatesApi" where
  "base toUpperCase currencies currency s =
     (case currency of
        NotStr \<Rightarrow> Inl BaseNotString
      | Str c \<Rightarrow>
          (let currencyUpper = toUpperCase c in
           case validateCurrency currencies currencyUpper of
             Inl e \<Rightarrow> Inl e
           | Inr _ \<Rightarrow> Inr (s\<lparr>this_base := Some currencyUpper\<rparr>)))"




section \<open>Building the URL\<close>

subsection \<open>The query string\<close>

text \<open>
  \<open>encodeURIComponent\<close> keeps the unreserved characters and writes every other byte as
  a percent sign and two hexadecimal digits.
\<close>

definition uri_unreserved :: string where
  "uri_unreserved = upper_letters @ lower_letters @ ''0123456789'' @ ''-_.!~*'()''"

definition hexdigit :: "nat \<Rightarrow> char" where
  "hexdigit n = ''0123456789ABCDEF'' ! (n mod 16)"

definition encodeChar :: "char \<Rightarrow> string" where
  "encodeChar c =
     (if c \<in> set uri_unreserved then [c]
      else [CHR ''%'', hexdigit ((of_char c :: nat) div 16), hexdigit (of_char c)])"

definition encodeURIComponent :: "string \<Rightarrow> string" where
  "encodeURIComponent s = concat (map encodeChar s)"

text \<open>\<open>Array.prototype.join\<close>.\<close>

fun join :: "string \<Rightarrow> string list \<Rightarrow> string" where
  "join sep [] = []"
| "join sep [x] = x"
| "join sep (x # y # ys) = x @ sep @ join sep (y # ys)"

text \<open>
  Modelled from the spec: the class \<open>QueryStringBuilder\<close> of
  \<^verbatim>\<open>./query-string-builder\<close>, which is not among the sources. The spec gives the request
  as \<open>{baseUrl}/{path}?{query}\<close>, the query parameters in the order they are added, each
  included only if set, and \<open>symbols\<close> joined with an unencoded separator. The builder
  is therefore the list of its parameters in the order of their first \<open>addParam\<close>;
  \<open>addParam key value encode\<close> stores the value, through \<open>encodeURIComponent\<close> unless
  \<open>encode\<close> is false (the source leaves the third argument out where it encodes); the
  builder prints as \<open>?k=v&k=v\<close>, and as the empty string when it has no parameter.
\<close>

type_synonym QueryStringBuilder = "(string \<times> string) list"

definition new_QueryStringBuilder :: QueryStringBuilder where
  "new_QueryStringBuilder = []"

fun set_param :: "string \<Rightarrow> string \<Rightarrow> QueryStringBuilder \<Rightarrow> QueryStringBuilder" where
  "set_param key v [] = [(key, v)]"
| "set_param key v ((k, w) # ps) =
     (if k = key then (k, v) # ps else (k, w) # set_param key v ps)"

definition addParam :: "string \<Rightarrow> string \<Rightarrow> bool \<Rightarrow> QueryStringBuilder \<Rightarrow> QueryStringBuilder" where
  "addParam key v encode qs = set_param key (if encode then encodeURIComponent v else v) qs"

definition qs_toString :: "QueryStringBuilder \<Rightarrow> string" where
  "qs_toString qs =
     (if qs = [] then [] else ''?'' @ join ''&'' (map (\<lambda>(k, v). k @ ''='' @ v) qs))"

subsection \<open>The URL\<close>

text \<open>
  \<open>_buildUrl\<close>, statement by statement. The tests \<open>if (this._base)\<close> and
  \<open>if (this._accessKey)\<close> are tests of truthiness: a string passes when it is not empty;
  an array (\<open>this._symbols\<close>) passes whenever it is defined. The method assigns to no
  field: the instance it returns is the one it was given.
\<close>

definition buildUrl :: "ExchangeRatesApi \<Rightarrow> string \<times> ExchangeRatesApi" where
  "buildUrl s =
     (let url0 = this_apiBaseUrl s @ ''/'';
          qs0 = new_QueryStringBuilder;
          (url1, qs1) =
            (if isHistoryRequest s then
               (url0 @ ''history'',
                addParam ''end_at'' (case this_to s of Some t \<Rightarrow> formatDate t | None \<Rightarrow> []) True
                  (addParam ''start_at''
                     (case this_from s of Date f \<Rightarrow> formatDate f | Latest \<Rightarrow> []) True qs0))
             else
               (url0 @ (case this_from s of Latest \<Rightarrow> ''latest'' | Date f \<Rightarrow> formatDate f),
                qs0));
          qs2 = (case this_base s of
                   Some b \<Rightarrow> if b \<noteq> [] then addParam ''base'' b True qs1 else qs1
                 | None \<Rightarrow> qs1);
          qs3 = (case this_symbols s of
                   Some xs \<Rightarrow> addParam ''symbols'' (join '','' xs) False qs2
                 | None \<Rightarrow> qs2);
          qs4 = (if this_accessKey s \<noteq> [] then addParam ''access_key'' (this_accessKey s) True qs3
                 else qs3)
      in (url1 @ qs_toString qs4, s))"

text \<open>The getter \<open>url\<close>: validate, then build.\<close>

definition url :: "ExchangeRatesApi \<Rightarrow> (error + string) \<times> ExchangeRatesApi" where
  "url s =
     (case validate s of
        Inl e \<Rightarrow> (Inl e, s)
      | Inr _ \<Rightarrow> (case buildUrl s of (u, s1) \<Rightarrow> (Inr u, s1)))"

section \<open>Fetching and averaging\<close>

subsection \<open>Responses\<close>

text \<open>
  The values of a response body that the declared type
  \<open>Record<string, number | Record<string, number>> | number\<close> is made of: numbers and
  objects, an object being its own properties in the order \<open>Object.keys\<close> lists them
  (currency codes and ISO dates are not integer-like keys, so that is insertion order).
  \<open>JNaN\<close> is the number \<open>NaN\<close>, which arithmetic on something that is not a number gives.
\<close>

datatype json = JNum rat | JNaN | JObj "(string \<times> json) list"

definition Object_values :: "json \<Rightarrow> json list" where
  "Object_values v = (case v of JObj ps \<Rightarrow> map snd ps | _ \<Rightarrow> [])"

text \<open>
  What \<open>axios.get(url)\<close> settles with. \<open>Resolved status rates\<close>: the promise resolves, with
  \<open>response.status\<close> and the field \<open>rates\<close> of \<open>response.data\<close> (\<open>None\<close> when the body
  has none). \<open>Rejected upstream message\<close>: the promise rejects with \<open>err\<close>; \<open>upstream\<close>
  is \<open>JSON.stringify(err.response.data.error)\<close> when \<open>err.response?.data?.error\<close> is
  truthy, and \<open>message\<close> is \<open>err.message\<close>.
\<close>

datatype axios_result =
    Resolved nat "json option"
  | Rejected "string option" string

text \<open>
  The chain \<open>.then(...).then(...).catch(...)\<close> of \<open>fetch\<close>. The first handler throws on
  a status other than 200; the second reads \<open>Object.keys(data.rates)\<close>, which throws a
  \<open>TypeError\<close> when \<open>rates\<close> is undefined, and returns the only value of a one-key
  object, else \<open>data.rates\<close> itself; the \<open>catch\<close> wraps whatever was thrown or rejected.
\<close>

definition fetch_chain :: "axios_result \<Rightarrow> error + json" where
  "fetch_chain r =
     (case r of
        Rejected upstream message \<Rightarrow>
          Inl (FetchFailed (case upstream of Some e \<Rightarrow> UpstreamError e
                                            | None \<Rightarrow> ErrorMessage message))
      | Resolved status rates \<Rightarrow>
          if status \<noteq> 200 then Inl (FetchFailed (BadResponse status))
          else (case rates of
                  None \<Rightarrow> Inl (FetchFailed NoRates)
                | Some data_rates \<Rightarrow>
                    Inr (case data_rates of JObj [(k, v)] \<Rightarrow> v | _ \<Rightarrow> data_rates)))"

text \<open>
  \<open>fetch\<close>: validate, build the URL, issue the GET. The network is the function \<open>get\<close>
  from the URL requested to what axios settles with; \<open>requests\<close> is the list of the URLs
  requested so far, which a GET extends.
\<close>

definition fetch ::
  "(string \<Rightarrow> axios_result) \<Rightarrow> ExchangeRatesApi \<Rightarrow> string list \<Rightarrow>
     (error + json) \<times> ExchangeRatesApi \<times> string list" where
  "fetch get s requests =
     (case validate s of
        Inl e \<Rightarrow> (Inl e, s, requests)
      | Inr _ \<Rightarrow>
          (case buildUrl s of
             (u, s1) \<Rightarrow> (fetch_chain (get u), s1, requests @ [u])))"

subsection \<open>Averages\<close>

text \<open>
  The argument \<open>decimalPlaces\<close> of \<open>avg\<close>: documented as \<open>?number\<close> (a number or
  \<open>null\<close>), with the default \<open>undefined\<close>.
\<close>

datatype decimal_places = Undefined | Null | Number rat

text \<open>\<open>Number.isInteger\<close>, and the comparison \<open>decimalPlaces < 0\<close>.\<close>

definition isInteger :: "decimal_places \<Rightarrow> bool" where
  "isInteger d = (case d of Number q \<Rightarrow> of_int \<lfloor>q\<rfloor> = q | _ \<Rightarrow> False)"

definition less_zero :: "decimal_places \<Rightarrow> bool" where
  "less_zero d = (case d of Number q \<Rightarrow> q < 0 | _ \<Rightarrow> False)"

text \<open>
  The object \<open>mergedObj\<close>: for each key, the rates pushed for it so far.
  \<open>mergedObj[key] = mergedObj[key] || []\<close> starts a key with the empty array, unless the
  empty object literal inherits a (truthy) property of that name, on which \<open>push\<close> then
  throws.
\<close>

type_synonym merged = "(string \<times> json list) list"

fun push_merged :: "string \<Rightarrow> json \<Rightarrow> merged \<Rightarrow> merged" where
  "push_merged key v [] = [(key, [v])]"
| "push_merged key v ((k, xs) # m) =
     (if k = key then (k, xs @ [v]) # m else (k, xs) # push_merged key v m)"

fun merge_object :: "(string \<times> json) list \<Rightarrow> merged \<Rightarrow> error + merged" where
  "merge_object [] m = Inr m"
| "merge_object ((key, v) # ps) m =
     (if key \<in> set object_prototype_keys then Inl PushNotFunction
      else merge_object ps (push_merged key v m))"

fun merge_values :: "json list \<Rightarrow> merged \<Rightarrow> error + merged" where
  "merge_values [] m = Inr m"
| "merge_values (JObj ps # vs) m =
     (case merge_object ps m of Inl e \<Rightarrow> Inl e | Inr m1 \<Rightarrow> merge_values vs m1)"
| "merge_values (v # vs) m = merge_values vs m"

text \<open>
  \<open>mergedObj[key].reduce((p, c) => p + c, 0) / mergedObj[key].length\<close>: the mean when
  every element is a number; \<open>NaN\<close> otherwise (\<open>+\<close> with an object concatenates strings,
  and the quotient of such a string is \<open>NaN\<close>, as is \<open>0 / 0\<close> for an empty array).
\<close>

fun numbers :: "json list \<Rightarrow> rat list option" where
  "numbers [] = Some []"
| "numbers (JNum q # vs) = (case numbers vs of Some qs \<Rightarrow> Some (q # qs) | None \<Rightarrow> None)"
| "numbers (v # vs) = None"

definition mean :: "json list \<Rightarrow> json" where
  "mean vs =
     (case numbers vs of
        Some qs \<Rightarrow> if qs = [] then JNaN else JNum (sum_list qs / of_nat (length qs))
      | None \<Rightarrow> JNaN)"

text \<open>
  \<open>+avgRate.toFixed(decimalPlaces)\<close>. The digits are \<open>ToIntegerOrInfinity\<close> of the
  argument, which is 0 for \<open>undefined\<close> and \<open>null\<close> and truncates a number; outside 0 to
  100 they are a \<open>RangeError\<close>. The number is then rounded to that many decimal places,
  half away from zero, and a number of magnitude \<open>10^21\<close> or more is printed in full.
\<close>

definition ToIntegerOrInfinity :: "decimal_places \<Rightarrow> int" where
  "ToIntegerOrInfinity d = (case d of Number q \<Rightarrow> (if 0 \<le> q then \<lfloor>q\<rfloor> else \<lceil>q\<rceil>) | _ \<Rightarrow> 0)"

definition round_to :: "nat \<Rightarrow> rat \<Rightarrow> rat" where
  "round_to f x =
     (if 10 ^ 21 \<le> \<bar>x\<bar> then x
      else sgn x * of_int \<lfloor>\<bar>x\<bar> * 10 ^ f + 1 / 2\<rfloor> / 10 ^ f)"

definition toFixed :: "json \<Rightarrow> decimal_places \<Rightarrow> error + json" where
  "toFixed x d =
     (let f = ToIntegerOrInfinity d in
      if f < 0 \<or> 100 < f then Inl ToFixedRange
      else Inr (case x of JNum q \<Rightarrow> JNum (round_to (nat f) q) | _ \<Rightarrow> JNaN))"

definition average :: "decimal_places \<Rightarrow> json list \<Rightarrow> error + json" where
  "average decimalPlaces vs =
     (let avgRate = mean vs in
      if decimalPlaces = Null then Inr avgRate else toFixed avgRate decimalPlaces)"

fun average_all :: "decimal_places \<Rightarrow> merged \<Rightarrow> error + (string \<times> json) list" where
  "average_all decimalPlaces [] = Inr []"
| "average_all decimalPlaces ((key, vs) # m) =
     (case average decimalPlaces vs of
        Inl e \<Rightarrow> Inl e
      | Inr v \<Rightarrow>
          (case average_all decimalPlaces m of
             Inl e \<Rightarrow> Inl e
           | Inr avgRates \<Rightarrow> Inr ((key, v) # avgRates)))"

text \<open>The handler \<open>avg\<close> gives to \<open>then\<close>, on the value \<open>fetch\<close> resolved with.\<close>

definition avg_then :: "decimal_places \<Rightarrow> ExchangeRatesApi \<Rightarrow> json \<Rightarrow> error + json" where
  "avg_then decimalPlaces s rates =
     (if \<not> isHistoryRequest s then Inr rates
      else
        (case merge_values (Object_values rates) [] of
           Inl e \<Rightarrow> Inl e
         | Inr mergedObj \<Rightarrow>
             (case average_all decimalPlaces mergedObj of
                Inl e \<Rightarrow> Inl e
              | Inr avgRates \<Rightarrow>
                  Inr (case avgRates of [(k, v)] \<Rightarrow> v | _ \<Rightarrow> JObj avgRates))))"

text \<open>\<open>avg\<close>: the two checks of the argument, then \<open>fetch\<close>, then the handler.\<close>

definition avg ::
  "(string \<Rightarrow> axios_result) \<Rightarrow> decimal_places \<Rightarrow> ExchangeRatesApi \<Rightarrow> string list \<Rightarrow>
     (error + json) \<times> ExchangeRatesApi \<times> string list" where
  "avg get decimalPlaces s requests =
     (if decimalPlaces \<noteq> Undefined \<and> \<not> isInteger decimalPlaces then
        (Inl DecimalPlacesNotInteger, s, requests)
      else if decimalPlaces \<noteq> Undefined \<and> less_zero decimalPlaces then
        (Inl DecimalPlacesNegative, s, requests)
      else
        (case fetch get s requests of
           (Inl e, s1, requests1) \<Rightarrow> (Inl e, s1, requests1)
         | (Inr rates, s1, requests1) \<Rightarrow> (avg_then decimalPlaces s1 rates, s1, requests1)))"

section \<open>The properties, in the words of the specification\<close>

text \<open>
  The query parameters that follow the dates, as the specification lists them: in this
  order, each included only if set, \<open>base\<close>, \<open>symbols\<close> (the codes joined with an
  unencoded comma) and \<open>access_key\<close>. A string is set when it is not empty.
\<close>

definition optional_params :: "ExchangeRatesApi \<Rightarrow> (string \<times> string) list" where
  "optional_params s =
     (case this_base s of
        Some b \<Rightarrow> if b \<noteq> [] then [(''base'', encodeURIComponent b)] else []
      | None \<Rightarrow> []) @
     (case this_symbols s of Some xs \<Rightarrow> [(''symbols'', join '','' xs)] | None \<Rightarrow> []) @
     (if this_accessKey s \<noteq> [] then [(''access_key'', encodeURIComponent (this_accessKey s))]
      else [])"


text \<open>A decimal-places argument that is a non-negative integer.\<close>

definition non_negative_integer :: "decimal_places \<Rightarrow> bool" where
  "non_negative_integer d = (case d of Number q \<Rightarrow> q \<in> \<int> \<and> 0 \<le> q | _ \<Rightarrow> False)"

subsection \<open>Example instances\<close>

text \<open>
  An instance as the constructor leaves it, a few dates, and the instance after
  \<open>from\<close> and \<open>to\<close>.
\<close>

definition example_api :: ExchangeRatesApi where
  "example_api =
     \<lparr>this_apiBaseUrl = ''https://api.example.com'', this_accessKey = ''KEY'',
      this_base = None, this_symbols = None, this_from = Latest, this_to = None\<rparr>"

definition jan1_2021 :: date where
  "jan1_2021 = \<lparr>year = 2021, month = 1, day = 1\<rparr>"

definition jan2_2021 :: date where
  "jan2_2021 = \<lparr>year = 2021, month = 1, day = 2\<rparr>"

definition jun1_1998 :: date where
  "jun1_1998 = \<lparr>year = 1998, month = 6, day = 1\<rparr>"

definition range_api :: ExchangeRatesApi where
  "range_api = to_date jan2_2021 (from_date jan1_2021 example_api)"


text \<open>
  A network that answers every GET with status 200 and the given \<open>rates\<close>; the two
  fixtures of the specification for a simple request, and its history response.
\<close>

definition respond :: "json \<Rightarrow> string \<Rightarrow> axios_result" where
  "respond data_rates u = Resolved 200 (Some data_rates)"

definition one_rate :: json where
  "one_rate = JObj [(''USD'', JNum (11 / 10))]"

definition two_rates :: json where
  "two_rates = JObj [(''USD'', JNum (11 / 10)), (''GBP'', JNum (9 / 10))]"

definition example_history :: json where
  "example_history =
     JObj [(''2021-01-01'', JObj [(''USD'', JNum 1), (''GBP'', JNum (4 / 5))]),
           (''2021-01-02'', JObj [(''USD'', JNum (6 / 5))])]"

section \<open>Lemmas\<close>

subsection \<open>Dates and the query string\<close>

lemma isAfter_irrefl: "\<not> isAfter d d"
  by (simp add: isAfter_def)

lemma not_isAfter_year: "\<not> isAfter f t \<Longrightarrow> getYear f \<le> getYear t"
  by (auto simp: isAfter_def getYear_def)

lemma digit_decimal: "digit n \<in> set ''0123456789''"
  unfolding digit_def by (rule nth_mem) simp

lemma digit_unreserved: "digit n \<in> set uri_unreserved"
  using digit_decimal [of n] by (auto simp: uri_unreserved_def)


lemma encodeChar_digit: "encodeChar (digit n) = [digit n]"
  by (simp add: encodeChar_def digit_unreserved)

lemma encodeChar_dash: "encodeChar CHR ''-'' = ''-''"
  by (simp add: encodeChar_def uri_unreserved_def)

lemma encode_formatDate: "encodeURIComponent (formatDate d) = formatDate d"
  by (simp add: encodeURIComponent_def formatDate_def pad2_def pad4_def
      encodeChar_digit encodeChar_dash)

lemma encode_empty: "encodeURIComponent [] = []"
  by (simp add: encodeURIComponent_def)

lemma join_Cons: "join sep (x # xs) = x @ concat (map (\<lambda>y. sep @ y) xs)"
  by (induction xs arbitrary: x) simp_all

lemma buildUrl_snd: "snd (buildUrl s) = s"
  by (simp add: buildUrl_def Let_def split: prod.splits)

lemma buildUrl_no_range:
  "this_to s = None \<Longrightarrow>
   fst (buildUrl s) =
     this_apiBaseUrl s @ ''/'' @ (case this_from s of Latest \<Rightarrow> ''latest'' | Date d \<Rightarrow> formatDate d) @
     qs_toString (optional_params s)"
  by (simp add: buildUrl_def isHistoryRequest_def optional_params_def addParam_def
      new_QueryStringBuilder_def Let_def split: option.splits)

lemma buildUrl_range:
  "this_to s = Some t \<Longrightarrow>
   fst (buildUrl s) =
     this_apiBaseUrl s @ ''/history'' @
     qs_toString
       ((''start_at'', case this_from s of Date f \<Rightarrow> formatDate f | Latest \<Rightarrow> []) #
        (''end_at'', formatDate t) # optional_params s)"
  by (cases "this_from s")
     (simp_all add: buildUrl_def isHistoryRequest_def optional_params_def addParam_def
      new_QueryStringBuilder_def Let_def encode_formatDate encode_empty
      split: option.splits)

lemma qs_toString_Cons:
  "qs_toString ((k, v) # ps) =
     ''?'' @ k @ ''='' @ v @ concat (map (\<lambda>(k, v). ''&'' @ k @ ''='' @ v) ps)"
  by (simp add: qs_toString_def join_Cons comp_def case_prod_unfold)



subsection \<open>The setter \<open>latest\<close> and the URL\<close>

lemma validate_latest_no_range: "this_to s = None \<Longrightarrow> validate (latest s) = Inr ()"
  by (simp add: validate_def isHistoryRequest_def latest_def)

lemma validate_latest_range: "this_to s \<noteq> None \<Longrightarrow> validate (latest s) = Inl InvalidDateRange"
  by (simp add: validate_def isHistoryRequest_def latest_def)

lemma buildUrl_eq: "buildUrl s = (fst (buildUrl s), s)"
  by (simp add: buildUrl_def Let_def split: prod.splits)

lemma optional_params_latest: "optional_params (latest s) = optional_params s"
  by (simp add: optional_params_def latest_def)

subsection \<open>Upper case and the inherited properties\<close>

text \<open>
  An upper-cased string has no ASCII lower-case letter, and every property an object
  literal inherits has one in its name: on an upper-cased string, \<open>in\<close> is membership
  among the own keys.
\<close>

lemma inherited_have_lower:
  "list_all (list_ex (\<lambda>c. c \<in> set lower_letters)) object_prototype_keys"
  by code_simp

lemma upper_not_inherited:
  assumes "upper_casing toUpperCase"
  shows "toUpperCase x \<notin> set object_prototype_keys"
proof
  assume "toUpperCase x \<in> set object_prototype_keys"
  with inherited_have_lower have "list_ex (\<lambda>c. c \<in> set lower_letters) (toUpperCase x)"
    by (simp only: list_all_iff)
  then obtain c where "c \<in> set (toUpperCase x)" "c \<in> set lower_letters"
    by (auto simp only: list_ex_iff)
  with assms show False
    by (auto simp: upper_casing_def)
qed

lemma js_in_upper:
  "upper_casing toUpperCase \<Longrightarrow>
   js_in (toUpperCase x) own_keys \<longleftrightarrow> toUpperCase x \<in> set own_keys"
  by (simp add: js_in_def upper_not_inherited)

text \<open>The ASCII mapping has the three properties.\<close>

lemma lower_zip: "fst ` set (zip lower_letters upper_letters) = set lower_letters"
proof -
  have "length lower_letters = length upper_letters"
    by (simp add: lower_letters_def upper_letters_def)
  then have "map fst (zip lower_letters upper_letters) = lower_letters"
    by (rule map_fst_zip)
  then have "set (map fst (zip lower_letters upper_letters)) = set lower_letters"
    by simp
  then show ?thesis
    by simp
qed

lemma upper_not_lower: "u \<in> set upper_letters \<Longrightarrow> u \<notin> set lower_letters"
  by (auto simp: lower_letters_def upper_letters_def)

lemma ascii_toUpperChar_not_lower: "ascii_toUpperChar c \<notin> set lower_letters"
proof (cases "map_of (zip lower_letters upper_letters) c")
  case None
  then have "c \<notin> set lower_letters"
    by (metis map_of_eq_None_iff lower_zip)
  with None show ?thesis
    by (simp add: ascii_toUpperChar_def)
next
  case (Some u)
  then have "(c, u) \<in> set (zip lower_letters upper_letters)"
    by (rule map_of_SomeD)
  then have "u \<in> set upper_letters"
    by (rule set_zip_rightD)
  then have "u \<notin> set lower_letters"
    by (rule upper_not_lower)
  with Some show ?thesis
    by (simp add: ascii_toUpperChar_def)
qed

lemma ascii_toUpperChar_fixed: "c \<notin> set lower_letters \<Longrightarrow> ascii_toUpperChar c = c"
proof -
  assume "c \<notin> set lower_letters"
  then have "map_of (zip lower_letters upper_letters) c = None"
    by (metis map_of_eq_None_iff lower_zip)
  then show ?thesis
    by (simp add: ascii_toUpperChar_def)
qed

lemma ascii_toUpperCase_idem: "ascii_toUpperCase (ascii_toUpperCase x) = ascii_toUpperCase x"
  by (simp add: ascii_toUpperCase_def ascii_toUpperChar_fixed ascii_toUpperChar_not_lower)

lemma upper_casing_ascii: "upper_casing ascii_toUpperCase"
  unfolding upper_casing_def
  using ascii_toUpperChar_not_lower ascii_toUpperCase_idem
  by (auto simp: ascii_toUpperCase_def)

subsection \<open>The errors of \<open>fetch\<close> and of the averaging handler\<close>

lemma validate_error: "validate s = Inl e \<Longrightarrow> \<not> InvalidArgument e"
  by (auto simp: validate_def InvalidArgument_def split: if_splits from_selector.splits option.splits)

lemma fetch_chain_error: "fetch_chain r = Inl e \<Longrightarrow> \<not> InvalidArgument e"
  by (auto simp: fetch_chain_def InvalidArgument_def split: axios_result.splits if_splits option.splits)

lemma fetch_error: "fst (fetch get s requests) = Inl e \<Longrightarrow> \<not> InvalidArgument e"
  by (auto simp: fetch_def validate_error fetch_chain_error split: sum.splits prod.splits)

lemma merge_object_error: "merge_object ps m = Inl e \<Longrightarrow> e = PushNotFunction"
  by (induction ps arbitrary: m) (auto split: if_splits)

lemma merge_values_error: "merge_values vs m = Inl e \<Longrightarrow> e = PushNotFunction"
  by (induction vs m rule: merge_values.induct) (auto split: sum.splits dest: merge_object_error)

lemma average_error: "average d vs = Inl e \<Longrightarrow> e = ToFixedRange"
  by (auto simp: average_def toFixed_def Let_def split: if_splits)

lemma average_all_error: "average_all d m = Inl e \<Longrightarrow> e = ToFixedRange"
  by (induction m) (auto split: sum.splits dest: average_error)

lemma avg_then_error: "avg_then d s rates = Inl e \<Longrightarrow> \<not> InvalidArgument e"
  by (auto simp: avg_then_def InvalidArgument_def split: if_splits sum.splits
      dest: merge_values_error average_all_error)

lemma isInteger_Ints: "isInteger (Number q) \<longleftrightarrow> q \<in> \<int>"
proof
  assume "isInteger (Number q)"
  then have "of_int \<lfloor>q\<rfloor> = q"
    by (simp add: isInteger_def)
  then show "q \<in> \<int>"
    by (metis Ints_of_int)
next
  assume "q \<in> \<int>"
  then show "isInteger (Number q)"
    by (auto simp: isInteger_def elim: Ints_cases)
qed

lemma checks_pass:
  "(d = Undefined \<or> non_negative_integer d) \<longleftrightarrow>
   \<not> (d \<noteq> Undefined \<and> \<not> isInteger d) \<and> \<not> (d \<noteq> Undefined \<and> less_zero d)"
proof (cases d)
  case Undefined
  then show ?thesis by simp
next
  case Null
  then show ?thesis by (simp add: non_negative_integer_def isInteger_def)
next
  case (Number q)
  then show ?thesis by (auto simp: non_negative_integer_def isInteger_Ints less_zero_def)
qed

text \<open>
  Once both checks of \<open>avg\<close> have passed, the argument is not \<open>null\<close>: every mean goes
  through \<open>toFixed\<close>.
\<close>

lemma average_after_checks:
  "d = Undefined \<or> non_negative_integer d \<Longrightarrow> average d vs = toFixed (mean vs) d"
  by (cases d) (simp_all add: average_def non_negative_integer_def)

section \<open>The claims\<close>

text \<open>
  C1. The claim is that \<open>avg\<close> with no \<open>decimalPlaces\<close> returns the means at full
  precision: \<open>{USD:1.1, GBP:0.8}\<close> for the history response of the specification. The
  source tests \<open>decimalPlaces === null\<close> where the default is \<open>undefined\<close>, so the means
  go through \<open>toFixed(undefined)\<close>, which rounds to no decimal place: on that response
  \<open>avg()\<close> returns \<open>{USD:1, GBP:1}\<close>.
\<close>

theorem C1_avg_default_rounds:
  "avg (respond example_history) Undefined range_api [] =
     (Inr (JObj [(''USD'', JNum 1), (''GBP'', JNum 1)]), range_api,
      [''https://api.example.com/history?start_at=2021-01-01&end_at=2021-01-02&access_key=KEY'']) \<and>
   fst (avg (respond example_history) Undefined range_api []) \<noteq>
     Inr (JObj [(''USD'', JNum (11 / 10)), (''GBP'', JNum (4 / 5))])"
  by code_simp

text \<open>
  C2, as amended. Validation fails whenever a concrete date of the configuration (the
  single date, the \<open>from\<close> date or the \<open>to\<close> date) has a year before 1999. The checks
  run in the order range, order, year, and the first one violated gives the error:
  \<open>InvalidDateRange\<close> when \<open>to\<close> is set and \<open>from\<close> is \<open>'latest'\<close>, \<open>InvalidDateOrder\<close>
  when \<open>from\<close> is after \<open>to\<close>, and \<open>UnsupportedHistoricalYear\<close> in every other case.
\<close>

theorem C2_validate_old_year:
  assumes "this_from s = Date d \<or> this_to s = Some d" and "getYear d < 1999"
  shows "validate s =
     Inl (if this_to s \<noteq> None \<and> this_from s = Latest then InvalidDateRange
          else if \<exists>f t. this_from s = Date f \<and> this_to s = Some t \<and> isAfter f t
            then InvalidDateOrder
          else UnsupportedHistoricalYear)"
proof (cases "this_from s")
  case Latest
  with assms show ?thesis
    by (auto simp: validate_def isHistoryRequest_def)
next
  case (Date f)
  show ?thesis
  proof (cases "this_to s")
    case None
    with Date assms show ?thesis
      by (auto simp: validate_def isHistoryRequest_def)
  next
    case (Some t)
    show ?thesis
    proof (cases "isAfter f t")
      case True
      with Date Some show ?thesis
        by (simp add: validate_def isHistoryRequest_def)
    next
      case False
      then have "getYear f \<le> getYear t"
        by (rule not_isAfter_year)
      with assms Date Some have "getYear f < 1999"
        by auto
      with False Date Some show ?thesis
        by (simp add: validate_def isHistoryRequest_def)
    qed
  qed
qed

text \<open>C2 on a single date in 1998, and on a range that ends in 1998.\<close>

theorem C2_validate_old_year_witness:
  "validate (at_date jun1_1998 example_api) = Inl UnsupportedHistoricalYear \<and>
   validate (to_date jun1_1998 (from_date jan1_2021 example_api)) = Inl InvalidDateOrder"
proof -
  have y: "getYear jun1_1998 < 1999"
    by (simp add: getYear_def jun1_1998_def)
  have a: "this_from (at_date jun1_1998 example_api) = Date jun1_1998 \<or>
      this_to (at_date jun1_1998 example_api) = Some jun1_1998"
    by (simp add: at_date_def parseDate_def)
  have b: "this_from (to_date jun1_1998 (from_date jan1_2021 example_api)) = Date jun1_1998 \<or>
      this_to (to_date jun1_1998 (from_date jan1_2021 example_api)) = Some jun1_1998"
    by (simp add: to_date_def parseDate_def)
  have c: "isAfter jan1_2021 jun1_1998"
    by (simp add: isAfter_def jan1_2021_def jun1_1998_def)
  from C2_validate_old_year [OF a y] C2_validate_old_year [OF b y] c show ?thesis
    by (simp add: at_date_def to_date_def from_date_def parseDate_def example_api_def)
qed

text \<open>
  C2 as stated fails: with a \<open>to\<close> date in 1998, validation fails with
  \<open>InvalidDateOrder\<close> when \<open>from\<close> is a later date, and with \<open>InvalidDateRange\<close> when
  \<open>from\<close> is \<open>'latest'\<close>; neither is \<open>UnsupportedHistoricalYear\<close>.
\<close>

theorem C2_counterexample:
  "getYear jun1_1998 < 1999 \<and>
   this_to (to_date jun1_1998 (from_date jan1_2021 example_api)) = Some jun1_1998 \<and>
   validate (to_date jun1_1998 (from_date jan1_2021 example_api)) \<noteq> Inl UnsupportedHistoricalYear \<and>
   validate (to_date jun1_1998 (from_date jan1_2021 example_api)) = Inl InvalidDateOrder \<and>
   this_to (to_date jun1_1998 example_api) = Some jun1_1998 \<and>
   validate (to_date jun1_1998 example_api) = Inl InvalidDateRange"
  by (simp add: validate_def isHistoryRequest_def to_date_def from_date_def parseDate_def
      example_api_def getYear_def isAfter_def jan1_2021_def jun1_1998_def)

text \<open>
  C3, as amended. \<open>latest()\<close> sets \<open>from\<close> to \<open>'latest'\<close> and leaves \<open>to\<close> as it is.
  When no \<open>to\<close> date is set (the states Latest, SingleDate and PendingRange), the next
  URL built and the next GET issued are a latest request (path segment \<open>latest\<close>). When a
  \<open>to\<close> date is set (the state Range), the configuration stays a history request, and
  the next URL build or fetch fails validation with \<open>InvalidDateRange\<close>, before any GET.
\<close>

theorem C3_latest:
  "this_from (latest s) = Latest \<and> this_to (latest s) = this_to s \<and>
   (this_to s = None \<longrightarrow>
      \<not> isHistoryRequest (latest s) \<and>
      url (latest s) =
        (Inr (this_apiBaseUrl s @ ''/latest'' @ qs_toString (optional_params s)), latest s) \<and>
      snd (fetch get (latest s) requests) =
        (latest s, requests @ [this_apiBaseUrl s @ ''/latest'' @ qs_toString (optional_params s)])) \<and>
   (this_to s \<noteq> None \<longrightarrow>
      isHistoryRequest (latest s) \<and>
      url (latest s) = (Inl InvalidDateRange, latest s) \<and>
      fetch get (latest s) requests = (Inl InvalidDateRange, latest s, requests))"
proof -
  have f: "this_from (latest s) = Latest" and t: "this_to (latest s) = this_to s"
    and b: "this_apiBaseUrl (latest s) = this_apiBaseUrl s"
    by (simp_all add: latest_def)
  have no_range: "buildUrl (latest s) =
      (this_apiBaseUrl s @ ''/latest'' @ qs_toString (optional_params s), latest s)"
    if "this_to s = None"
    using that buildUrl_no_range [of "latest s"] buildUrl_eq [of "latest s"]
    by (simp add: f t b optional_params_latest)
  have 1: "this_to s = None \<longrightarrow>
      \<not> isHistoryRequest (latest s) \<and>
      url (latest s) =
        (Inr (this_apiBaseUrl s @ ''/latest'' @ qs_toString (optional_params s)), latest s) \<and>
      snd (fetch get (latest s) requests) =
        (latest s, requests @ [this_apiBaseUrl s @ ''/latest'' @ qs_toString (optional_params s)])"
    by (simp add: url_def fetch_def validate_latest_no_range no_range isHistoryRequest_def t)
  have 2: "this_to s \<noteq> None \<longrightarrow>
      isHistoryRequest (latest s) \<and>
      url (latest s) = (Inl InvalidDateRange, latest s) \<and>
      fetch get (latest s) requests = (Inl InvalidDateRange, latest s, requests)"
    by (simp add: url_def fetch_def validate_latest_range isHistoryRequest_def t)
  from f t 1 2 show ?thesis
    by blast
qed

text \<open>C3 after \<open>at\<close> (no \<open>to\<close> date), and after \<open>from\<close> and \<open>to\<close>.\<close>

theorem C3_latest_witness:
  "url (latest (at_date jan1_2021 example_api)) =
     (Inr ''https://api.example.com/latest?access_key=KEY'', latest (at_date jan1_2021 example_api)) \<and>
   url (latest range_api) = (Inl InvalidDateRange, latest range_api)"
proof -
  have a: "this_to (at_date jan1_2021 example_api) = None"
    by (simp add: at_date_def example_api_def)
  have b: "this_to range_api \<noteq> None"
    by (simp add: range_api_def to_date_def)
  have c: "this_apiBaseUrl (at_date jan1_2021 example_api) @ ''/latest'' @
      qs_toString (optional_params (at_date jan1_2021 example_api)) =
      ''https://api.example.com/latest?access_key=KEY''"
    by (simp add: at_date_def example_api_def optional_params_def qs_toString_def
        encodeURIComponent_def encodeChar_def uri_unreserved_def upper_letters_def)
  from C3_latest [of "at_date jan1_2021 example_api"] a c
  have 1: "url (latest (at_date jan1_2021 example_api)) =
     (Inr ''https://api.example.com/latest?access_key=KEY'', latest (at_date jan1_2021 example_api))"
    by simp
  from C3_latest [of range_api] b
  have 2: "url (latest range_api) = (Inl InvalidDateRange, latest range_api)"
    by simp
  from 1 2 show ?thesis by simp
qed

text \<open>
  C3 as stated fails from the state Range: after \<open>from\<close>, \<open>to\<close> and \<open>latest\<close> the
  request is still a history request, the getter \<open>url\<close> throws, and \<open>_buildUrl\<close> alone
  gives the path \<open>history\<close> with an empty \<open>start_at\<close>.
\<close>

theorem C3_counterexample:
  "isHistoryRequest (latest range_api) \<and>
   fst (url (latest range_api)) = Inl InvalidDateRange \<and>
   fst (buildUrl (latest range_api)) =
     ''https://api.example.com/history?start_at=&end_at=2021-01-02&access_key=KEY''"
  by code_simp

text \<open>
  C4. For every valid configuration, building the URL is a function of the configuration
  alone and leaves it as it was: \<open>_buildUrl\<close> returns the instance it was given, a second
  call on that instance returns the same string, and so does the getter \<open>url\<close>, which
  validates first.
\<close>

theorem C4_buildUrl_pure:
  "validate s = Inr () \<Longrightarrow>
     snd (buildUrl s) = s \<and>
     buildUrl (snd (buildUrl s)) = buildUrl s \<and>
     url s = (Inr (fst (buildUrl s)), s) \<and>
     url (snd (url s)) = url s"
proof -
  assume v: "validate s = Inr ()"
  have u: "url s = (Inr (fst (buildUrl s)), s)"
    by (simp add: url_def v case_prod_unfold buildUrl_snd)
  then have "url (snd (url s)) = url s"
    by simp
  with u show ?thesis
    by (simp add: buildUrl_snd)
qed

text \<open>C4 on the example range request.\<close>

theorem C4_buildUrl_pure_witness:
  "validate range_api = Inr () \<and>
   buildUrl range_api =
     (''https://api.example.com/history?start_at=2021-01-01&end_at=2021-01-02&access_key=KEY'',
      range_api) \<and>
   buildUrl (snd (buildUrl range_api)) = buildUrl range_api \<and>
   url (snd (url range_api)) = url range_api"
proof -
  have v: "validate range_api = Inr ()"
    by code_simp
  have u: "fst (buildUrl range_api) =
     ''https://api.example.com/history?start_at=2021-01-01&end_at=2021-01-02&access_key=KEY''"
    by code_simp
  from C4_buildUrl_pure [OF v] u v show ?thesis
    by (simp add: prod_eq_iff)
qed

text \<open>
  C5. For every successful fetch (validation passes, the GET resolves with status 200 and
  a body whose \<open>rates\<close> is an object): when \<open>rates\<close> has exactly one key, \<open>fetch\<close>
  returns the value under that key; when it has two or more, \<open>fetch\<close> returns the whole
  mapping.
\<close>

theorem C5_fetch_collapse:
  assumes "validate s = Inr ()"
    and "get (fst (buildUrl s)) = Resolved 200 (Some (JObj rates))"
  shows "(\<forall>k v. rates = [(k, v)] \<longrightarrow> fst (fetch get s requests) = Inr v) \<and>
     (2 \<le> length rates \<longrightarrow> fst (fetch get s requests) = Inr (JObj rates))"
proof -
  have f: "fst (fetch get s requests) = fetch_chain (Resolved 200 (Some (JObj rates)))"
    using assms by (simp add: fetch_def case_prod_unfold)
  have "fetch_chain (Resolved 200 (Some (JObj [(k, v)]))) = Inr v" for k v
    by (simp add: fetch_chain_def)
  moreover have "fetch_chain (Resolved 200 (Some (JObj rates))) = Inr (JObj rates)"
    if "2 \<le> length rates"
  proof -
    from that obtain a b rest where "rates = a # b # rest"
      by (cases rates; cases "tl rates") auto
    then show ?thesis
      by (cases a) (simp add: fetch_chain_def)
  qed
  ultimately show ?thesis
    using f by auto
qed

text \<open>
  C5 on the two fixtures: \<open>{rates:{USD:1.1}}\<close> gives \<open>1.1\<close>, and
  \<open>{rates:{USD:1.1,GBP:0.9}}\<close> gives the mapping.
\<close>

theorem C5_fetch_collapse_witness:
  "fst (fetch (respond one_rate) example_api []) = Inr (JNum (11 / 10)) \<and>
   fst (fetch (respond two_rates) example_api []) =
     Inr (JObj [(''USD'', JNum (11 / 10)), (''GBP'', JNum (9 / 10))])"
proof -
  have v: "validate example_api = Inr ()"
    by (simp add: validate_def isHistoryRequest_def example_api_def)
  have a: "respond one_rate (fst (buildUrl example_api)) =
      Resolved 200 (Some (JObj [(''USD'', JNum (11 / 10))]))"
    and b: "respond two_rates (fst (buildUrl example_api)) =
      Resolved 200 (Some (JObj [(''USD'', JNum (11 / 10)), (''GBP'', JNum (9 / 10))]))"
    by (simp_all add: respond_def one_rate_def two_rates_def)
  from C5_fetch_collapse [where get = "respond one_rate" and s = example_api
        and rates = "[(''USD'', JNum (11 / 10))]" and requests = "[]", OF v a]
    C5_fetch_collapse [where get = "respond two_rates" and s = example_api
        and rates = "[(''USD'', JNum (11 / 10)), (''GBP'', JNum (9 / 10))]" and requests = "[]", OF v b]
  show ?thesis
    by simp
qed

text \<open>
  C6. For every string, setting the base currency succeeds if and only if the upper-cased
  string is a key of the currency table; on success the stored base is the upper-cased
  code, and on failure the error is \<open>InvalidCurrency\<close>. A string and its upper-case form
  give the same result, as \<open>"usd"\<close> and \<open>"USD"\<close> do. This holds for every function
  \<open>toUpperCase\<close> with the three properties of \<open>upper_casing\<close>, which
  \<open>String.prototype.toUpperCase\<close> has.
\<close>

theorem C6_base_currency:
  assumes "upper_casing toUpperCase"
  shows "base toUpperCase currencies (Str c) s =
     (if toUpperCase c \<in> set currencies then Inr (s\<lparr>this_base := Some (toUpperCase c)\<rparr>)
      else Inl (InvalidCurrency (toUpperCase c))) \<and>
   base toUpperCase currencies (Str (toUpperCase c)) s = base toUpperCase currencies (Str c) s \<and>
   base toUpperCase currencies (Str ''usd'') s = base toUpperCase currencies (Str ''USD'') s"
proof -
  have 1: "base toUpperCase currencies (Str x) s =
     (if toUpperCase x \<in> set currencies then Inr (s\<lparr>this_base := Some (toUpperCase x)\<rparr>)
      else Inl (InvalidCurrency (toUpperCase x)))" for x
    using assms by (simp add: base_def validateCurrency_def js_in_upper)
  from assms have idem: "toUpperCase (toUpperCase c) = toUpperCase c"
    by (simp add: upper_casing_def)
  have "ascii ''usd''" "ascii ''USD''"
    by (simp_all add: ascii_def)
  with assms have "toUpperCase ''usd'' = ascii_toUpperCase ''usd''"
    "toUpperCase ''USD'' = ascii_toUpperCase ''USD''"
    by (simp_all add: upper_casing_def)
  moreover have "ascii_toUpperCase ''usd'' = ascii_toUpperCase ''USD''"
    by code_simp
  ultimately have 2: "toUpperCase ''usd'' = toUpperCase ''USD''"
    by simp
  show ?thesis
    by (simp only: 1 idem 2)
qed

text \<open>
  C6 with the ASCII mapping, on a table of three codes: a lower-case code, a mixed-case
  code, and the name of an inherited property, which upper-casing takes out of the reach
  of \<open>in\<close>.
\<close>

theorem C6_base_currency_witness:
  "upper_casing ascii_toUpperCase \<and>
   base ascii_toUpperCase [''EUR'', ''USD'', ''GBP''] (Str ''usd'') example_api =
     Inr (example_api\<lparr>this_base := Some ''USD''\<rparr>) \<and>
   base ascii_toUpperCase [''EUR'', ''USD'', ''GBP''] (Str ''Usd'') example_api =
     base ascii_toUpperCase [''EUR'', ''USD'', ''GBP''] (Str ''USD'') example_api \<and>
   base ascii_toUpperCase [''EUR'', ''USD'', ''GBP''] (Str ''toString'') example_api =
     Inl (InvalidCurrency ''TOSTRING'')"
proof -
  have u: "ascii_toUpperCase ''usd'' = ''USD''" "ascii_toUpperCase ''Usd'' = ''USD''"
    "ascii_toUpperCase ''USD'' = ''USD''" "ascii_toUpperCase ''toString'' = ''TOSTRING''"
    by code_simp+
  note b = C6_base_currency [OF upper_casing_ascii, THEN conjunct1]
  have 1: "base ascii_toUpperCase [''EUR'', ''USD'', ''GBP''] (Str ''usd'') example_api =
      Inr (example_api\<lparr>this_base := Some ''USD''\<rparr>)"
    by (simp add: b u)
  have 2: "base ascii_toUpperCase [''EUR'', ''USD'', ''GBP''] (Str ''Usd'') example_api =
      base ascii_toUpperCase [''EUR'', ''USD'', ''GBP''] (Str ''USD'') example_api"
    by (simp add: b u)
  have 3: "base ascii_toUpperCase [''EUR'', ''USD'', ''GBP''] (Str ''toString'') example_api =
      Inl (InvalidCurrency ''TOSTRING'')"
    by (simp add: b u)
  from 1 2 3 upper_casing_ascii show ?thesis
    by (simp only: simp_thms)
qed

text \<open>
  C7. For a range request (a \<open>to\<close> date is set), validation fails with
  \<open>InvalidDateRange\<close> when \<open>from\<close> is still the sentinel \<open>'latest'\<close>, fails with
  \<open>InvalidDateOrder\<close> when \<open>from\<close> is after \<open>to\<close>, and succeeds when \<open>from\<close> equals
  \<open>to\<close> and the year is 1999 or later.
\<close>

theorem C7_validate_range:
  "this_to s = Some t \<Longrightarrow>
     (this_from s = Latest \<longrightarrow> validate s = Inl InvalidDateRange) \<and>
     (\<forall>f. this_from s = Date f \<and> isAfter f t \<longrightarrow> validate s = Inl InvalidDateOrder) \<and>
     (this_from s = Date t \<and> 1999 \<le> getYear t \<longrightarrow> validate s = Inr ())"
  by (simp add: validate_def isHistoryRequest_def isAfter_irrefl)

text \<open>The three cases of C7 on the example instance.\<close>

theorem C7_validate_range_witness:
  "validate (to_date jan2_2021 (latest example_api)) = Inl InvalidDateRange \<and>
   validate (to_date jan1_2021 (from_date jan2_2021 example_api)) = Inl InvalidDateOrder \<and>
   validate (to_date jan1_2021 (from_date jan1_2021 example_api)) = Inr ()"
proof -
  have a: "this_to (to_date jan2_2021 (latest example_api)) = Some jan2_2021"
    and b: "this_to (to_date jan1_2021 (from_date jan2_2021 example_api)) = Some jan1_2021"
    and c: "this_to (to_date jan1_2021 (from_date jan1_2021 example_api)) = Some jan1_2021"
    by (simp_all add: to_date_def parseDate_def)
  have "this_from (to_date jan2_2021 (latest example_api)) = Latest"
    by (simp add: to_date_def latest_def)
  with C7_validate_range [OF a]
  have 1: "validate (to_date jan2_2021 (latest example_api)) = Inl InvalidDateRange"
    by simp
  have "this_from (to_date jan1_2021 (from_date jan2_2021 example_api)) = Date jan2_2021"
    "isAfter jan2_2021 jan1_2021"
    by (simp_all add: to_date_def from_date_def parseDate_def isAfter_def jan1_2021_def jan2_2021_def)
  with C7_validate_range [OF b]
  have 2: "validate (to_date jan1_2021 (from_date jan2_2021 example_api)) = Inl InvalidDateOrder"
    by simp
  have "this_from (to_date jan1_2021 (from_date jan1_2021 example_api)) = Date jan1_2021"
    "1999 \<le> getYear jan1_2021"
    by (simp_all add: to_date_def from_date_def parseDate_def getYear_def jan1_2021_def)
  with C7_validate_range [OF c]
  have 3: "validate (to_date jan1_2021 (from_date jan1_2021 example_api)) = Inr ()"
    by simp
  from 1 2 3 show ?thesis by simp
qed



text \<open>
  C9. When \<open>decimalPlaces\<close> is provided and is not a non-negative integer, \<open>avg\<close> fails
  with an \<open>InvalidArgument\<close> error, with the instance unchanged and no request issued.
  When it is omitted or is a non-negative integer, no error \<open>avg\<close> ends with is an
  \<open>InvalidArgument\<close> error.
\<close>

theorem C9_avg_argument:
  "(d \<noteq> Undefined \<and> \<not> non_negative_integer d \<longrightarrow>
      (\<exists>e. avg get d s requests = (Inl e, s, requests) \<and> InvalidArgument e)) \<and>
   (d = Undefined \<or> non_negative_integer d \<longrightarrow>
      (\<forall>e. fst (avg get d s requests) = Inl e \<longrightarrow> \<not> InvalidArgument e))"
proof (cases "d = Undefined \<or> non_negative_integer d")
  case True
  then have p: "\<not> (d \<noteq> Undefined \<and> \<not> isInteger d)" "\<not> (d \<noteq> Undefined \<and> less_zero d)"
    using checks_pass by blast+
  have "\<not> InvalidArgument e" if "fst (avg get d s requests) = Inl e" for e
  proof (cases "fetch get s requests")
    case (fields r s1 requests1)
    show ?thesis
    proof (cases r)
      case (Inl e1)
      with that fields p have "fst (fetch get s requests) = Inl e"
        by (simp add: avg_def)
      then show ?thesis
        by (rule fetch_error)
    next
      case (Inr rates)
      with that fields p have "avg_then d s1 rates = Inl e"
        by (simp add: avg_def)
      then show ?thesis
        by (rule avg_then_error)
    qed
  qed
  with True show ?thesis
    by blast
next
  case False
  then have "(d \<noteq> Undefined \<and> \<not> isInteger d) \<or> (d \<noteq> Undefined \<and> less_zero d)"
    using checks_pass by blast
  then have "\<exists>e. avg get d s requests = (Inl e, s, requests) \<and> InvalidArgument e"
    by (auto simp: avg_def InvalidArgument_def)
  with False show ?thesis
    by blast
qed

text \<open>
  C9 on \<open>0.5\<close>, \<open>-1\<close> and \<open>null\<close>, which fail before the request, and on \<open>101\<close>,
  which passes the checks and ends with the \<open>RangeError\<close> of \<open>toFixed\<close>.
\<close>

theorem C9_avg_argument_witness:
  "(\<exists>e. avg (respond example_history) (Number (1 / 2)) range_api [] = (Inl e, range_api, []) \<and>
      InvalidArgument e) \<and>
   (\<exists>e. avg (respond example_history) (Number (- 1)) range_api [] = (Inl e, range_api, []) \<and>
      InvalidArgument e) \<and>
   (\<exists>e. avg (respond example_history) Null range_api [] = (Inl e, range_api, []) \<and>
      InvalidArgument e) \<and>
   fst (avg (respond example_history) (Number 101) range_api []) = Inl ToFixedRange \<and>
   \<not> InvalidArgument ToFixedRange"
proof -
  have a: "Number (1 / 2) \<noteq> Undefined \<and> \<not> non_negative_integer (Number (1 / 2))"
    and b: "Number (- 1) \<noteq> Undefined \<and> \<not> non_negative_integer (Number (- 1))"
    and c: "Null \<noteq> Undefined \<and> \<not> non_negative_integer Null"
    and d: "Number 101 = Undefined \<or> non_negative_integer (Number 101)"
    by (simp_all add: non_negative_integer_def)
  have r: "fst (avg (respond example_history) (Number 101) range_api []) = Inl ToFixedRange"
    by code_simp
  from C9_avg_argument [of "Number (1 / 2)" "respond example_history" range_api "[]"] a
    C9_avg_argument [of "Number (- 1)" "respond example_history" range_api "[]"] b
    C9_avg_argument [of Null "respond example_history" range_api "[]"] c
    C9_avg_argument [of "Number 101" "respond example_history" range_api "[]"] d r
  show ?thesis
    by blast
qed

text \<open>
  C10. The setters \<open>at\<close>, \<open>from\<close> and \<open>latest\<close> write the field \<open>from\<close> only: putting
  the old \<open>from\<close> back gives the instance they were given, and in particular \<open>to\<close>
  (as \<open>base\<close> and \<open>symbols\<close>) is unchanged. Hence after \<open>to(d)\<close>, a call \<open>at(e)\<close> leaves
  a history request: the URL built has the path \<open>history\<close>, \<open>e\<close> as \<open>start_at\<close> and
  \<open>d\<close> as \<open>end_at\<close>.
\<close>

theorem C10_setters_frame:
  "(at_date d s)\<lparr>this_from := this_from s\<rparr> = s \<and>
   (from_date d s)\<lparr>this_from := this_from s\<rparr> = s \<and>
   (latest s)\<lparr>this_from := this_from s\<rparr> = s \<and>
   this_to (at_date d s) = this_to s \<and>
   this_to (from_date d s) = this_to s \<and>
   this_to (latest s) = this_to s \<and>
   isHistoryRequest (at_date e (to_date d s)) \<and>
   fst (buildUrl (at_date e (to_date d s))) =
     this_apiBaseUrl s @ ''/history?start_at='' @ formatDate (parseDate e) @
     ''&end_at='' @ formatDate (parseDate d) @
     concat (map (\<lambda>(k, v). ''&'' @ k @ ''='' @ v) (optional_params s))"
proof -
  have t: "this_to (at_date e (to_date d s)) = Some (parseDate d)"
    by (simp add: at_date_def to_date_def)
  have o: "optional_params (at_date e (to_date d s)) = optional_params s"
    by (simp add: optional_params_def at_date_def to_date_def)
  have "fst (buildUrl (at_date e (to_date d s))) =
     this_apiBaseUrl s @ ''/history?start_at='' @ formatDate (parseDate e) @
     ''&end_at='' @ formatDate (parseDate d) @
     concat (map (\<lambda>(k, v). ''&'' @ k @ ''='' @ v) (optional_params s))"
    using buildUrl_range [OF t] o
    by (simp add: qs_toString_Cons) (simp add: at_date_def to_date_def)
  then show ?thesis
    by (simp add: at_date_def from_date_def latest_def to_date_def isHistoryRequest_def)
qed

text \<open>C10 on the example instance: \<open>to\<close>, then \<open>at\<close>.\<close>

theorem C10_setters_frame_witness:
  "isHistoryRequest (at_date jan1_2021 (to_date jan2_2021 example_api)) \<and>
   fst (buildUrl (at_date jan1_2021 (to_date jan2_2021 example_api))) =
     ''https://api.example.com/history?start_at=2021-01-01&end_at=2021-01-02&access_key=KEY''"
  using C10_setters_frame [where d = jan2_2021 and s = example_api and e = jan1_2021]
  by (simp add: example_api_def jan1_2021_def jan2_2021_def parseDate_def optional_params_def
      formatDate_def pad2_def pad4_def digit_def encodeURIComponent_def encodeChar_def
      uri_unreserved_def upper_letters_def lower_letters_def)

end
